theory Spec2Isabelle
  imports Main
begin

section \<open>Data model\<close>

text \<open>
  The exceptions of the Python program that the model distinguishes. An exception that
  a function of the program lets escape is the \<open>Inl\<close> branch of its result.
\<close>

datatype error = AttributeError | TypeError | ValueError | IndexError
  | IntegrityError | OperationalError | UnicodeDecodeError

text \<open>
  The mapped class \<^verbatim>\<open>Question\<close> (table \<^verbatim>\<open>questions\<close>). The column \<^verbatim>\<open>id\<close> is
  called \<open>qid\<close> here, since \<open>id\<close> is the identity function of HOL. The column
  \<^verbatim>\<open>explanation\<close> is the only nullable one.
\<close>

record question =
  qid :: int
  question_text :: string
  option_a :: string
  option_b :: string
  option_c :: string
  option_d :: string
  correct_option :: string
  explanation :: "string option"

text \<open>One row of the results table built by \<^verbatim>\<open>submit_quiz\<close> (the keys of its dict).\<close>

record result =
  Question :: string
  Your_Answer :: string
  Correct_Answer :: string
  Explanation :: "string option"
  Result :: string

text \<open>
  What the program writes to its log and to the page. Log lines that format an exception
  or the \<^verbatim>\<open>repr\<close> of a record carry the value instead of the text; the messages shown
  to the user are the strings of the source (an emoji at the start of a heading or of a
  message is left out, the theory being ASCII).
\<close>

datatype log_entry =
    Fetched nat
  | Error_fetching
  | Added_question int
  | Error_adding error
  | Parsed nat
  | Not_a_list
  | JSON_decode_error
  | Saved_progress
  | Submitted int nat
  | Missing_fields_log
  | Error_processing error

datatype event =
    Log log_entry
  | st_success string
  | st_error string
  | st_warning string
  | st_header string
  | st_subheader string
  | st_write string
  | st_markdown string
  | st_dataframe "result list"
  | st_sidebar_time int

section \<open>Strings\<close>

text \<open>\<^verbatim>\<open>str.lower\<close> on the ASCII range: \<open>A\<close>..\<open>Z\<close> go to \<open>a\<close>..\<open>z\<close>.\<close>

definition lower_char :: "char \<Rightarrow> char" where
  "lower_char c =
     (case map_of (zip ''ABCDEFGHIJKLMNOPQRSTUVWXYZ'' ''abcdefghijklmnopqrstuvwxyz'') c of
        Some l \<Rightarrow> l
      | None \<Rightarrow> c)"

definition lower :: "string \<Rightarrow> string" where
  "lower s = map lower_char s"

text \<open>\<^verbatim>\<open>str\<close> of a Python integer, as the f-strings of the source format it.\<close>

definition digit_char :: "nat \<Rightarrow> char" where
  "digit_char d = ''0123456789'' ! d"

fun str_nat :: "nat \<Rightarrow> string" where
  "str_nat n = (if n < 10 then [digit_char n] else str_nat (n div 10) @ [digit_char (n mod 10)])"

declare str_nat.simps [simp del]

definition str_int :: "int \<Rightarrow> string" where
  "str_int i = (if i < 0 then CHR ''-'' # str_nat (nat (- i)) else str_nat (nat i))"

section \<open>Scoring and review\<close>

text \<open>
  \<^verbatim>\<open>getattr(question, f'option_{s}')\<close>: the attributes of \<^verbatim>\<open>Question\<close> whose names start
  with \<^verbatim>\<open>option_\<close> are the four option columns; any other name raises AttributeError.
\<close>

definition getattr_option :: "question \<Rightarrow> string \<Rightarrow> error + string" where
  "getattr_option q s =
     (if s = ''a'' then Inr (option_a q)
      else if s = ''b'' then Inr (option_b q)
      else if s = ''c'' then Inr (option_c q)
      else if s = ''d'' then Inr (option_d q)
      else Inl AttributeError)"

text \<open>\<^verbatim>\<open>st.session_state.answers.get(question.id, "No Answer")\<close>.\<close>

definition get_answer :: "(int \<rightharpoonup> string) \<Rightarrow> question \<Rightarrow> string" where
  "get_answer answers q = (case answers (qid q) of None \<Rightarrow> ''No Answer'' | Some a \<Rightarrow> a)"

text \<open>
  The value of the key \<^verbatim>\<open>'Your Answer'\<close>: a conditional expression, whose lookup is
  evaluated only when the answer is not the sentinel.
\<close>

definition your_answer_text :: "question \<Rightarrow> string \<Rightarrow> error + string" where
  "your_answer_text q user_answer =
     (if user_answer \<noteq> ''No Answer''
      then (case getattr_option q (lower user_answer) of
              Inl e \<Rightarrow> Inl e
            | Inr t \<Rightarrow> Inr (user_answer @ '': '' @ t))
      else Inr ''No Answer'')"

definition correct_answer_text :: "question \<Rightarrow> error + string" where
  "correct_answer_text q =
     (case getattr_option q (lower (correct_option q)) of
        Inl e \<Rightarrow> Inl e
      | Inr t \<Rightarrow> Inr (correct_option q @ '': '' @ t))"

text \<open>
  The loop of \<^verbatim>\<open>submit_quiz\<close> over the questions, with its two accumulators. A lookup
  that raises ends the loop with the exception.
\<close>

fun submit_quiz_loop ::
  "(int \<rightharpoonup> string) \<Rightarrow> question list \<Rightarrow> int \<Rightarrow> result list \<Rightarrow> error + (int \<times> result list)" where
  "submit_quiz_loop answers [] score results = Inr (score, results)"
| "submit_quiz_loop answers (q # qs) score results =
     (let user_answer = get_answer answers q;
          correct = (user_answer = correct_option q);
          score' = (if correct then score + 1 else score)
      in case your_answer_text q user_answer of
           Inl e \<Rightarrow> Inl e
         | Inr ya \<Rightarrow>
             (case correct_answer_text q of
                Inl e \<Rightarrow> Inl e
              | Inr ca \<Rightarrow>
                  submit_quiz_loop answers qs score'
                    (results @
                      [\<lparr>Question = question_text q, Your_Answer = ya, Correct_Answer = ca,
                        Explanation = explanation q,
                        Result = (if correct then ''Correct'' else ''Incorrect'')\<rparr>])))"

text \<open>\<^verbatim>\<open>submit_quiz\<close>: the loop, then the heading, the score line, the table and the log line.\<close>

definition submit_quiz :: "question list \<Rightarrow> (int \<rightharpoonup> string) \<Rightarrow> error + event list" where
  "submit_quiz questions answers =
     (case submit_quiz_loop answers questions 0 [] of
        Inl e \<Rightarrow> Inl e
      | Inr (score, results) \<Rightarrow>
          Inr [st_header ''Quiz Results'',
               st_write (''**Your Score:** '' @ str_int score @ '' / '' @ str_nat (length questions)),
               st_dataframe results,
               Log (Submitted score (length questions))])"

text \<open>
  \<^verbatim>\<open>review_answers\<close> writes as it goes: what was written before a lookup raises stays on
  the page, so the result is the events so far and the exception, if any.
\<close>

fun review_answers_loop ::
  "(int \<rightharpoonup> string) \<Rightarrow> nat \<Rightarrow> question list \<Rightarrow> event list \<times> error option" where
  "review_answers_loop answers idx [] = ([], None)"
| "review_answers_loop answers idx (q # qs) =
     (let user_answer = get_answer answers q;
          correct = (user_answer = correct_option q);
          head = [st_subheader (''Question '' @ str_nat idx @ '': '' @ question_text q)]
      in case (if user_answer \<noteq> ''No Answer''
               then (case getattr_option q (lower user_answer) of
                       Inl e \<Rightarrow> Inl e
                     | Inr t \<Rightarrow> Inr (''**Your Answer:** '' @ user_answer @ '': '' @ t))
               else Inr ''**Your Answer:** No Answer'') of
           Inl e \<Rightarrow> (head, Some e)
         | Inr ya \<Rightarrow>
             (case getattr_option q (lower (correct_option q)) of
                Inl e \<Rightarrow> (head @ [st_write ya], Some e)
              | Inr t \<Rightarrow>
                  (let (rest, err) = review_answers_loop answers (Suc idx) qs
                   in (head @
                       [st_write ya,
                        st_write (''**Correct Answer:** '' @ correct_option q @ '': '' @ t),
                        st_write (''**Explanation:** '' @
                          (case explanation q of None \<Rightarrow> ''None'' | Some x \<Rightarrow> x)),
                        st_write (''**Result:** '' @ (if correct then ''Correct'' else ''Incorrect'')),
                        st_markdown ''---''] @ rest, err))))"

definition review_answers :: "question list \<Rightarrow> (int \<rightharpoonup> string) \<Rightarrow> event list \<times> error option" where
  "review_answers questions answers =
     (let (evs, err) = review_answers_loop answers 1 questions
      in (st_header ''Review Your Answers'' # evs, err))"


section \<open>Quiz session\<close>

text \<open>
  \<^verbatim>\<open>fetch_all_questions\<close>. The query is the backend's; its outcome is the argument: the
  rows of the table, or \<open>None\<close> when the query raises, which the function turns into the
  empty list.
\<close>

definition fetch_all_questions :: "question list option \<Rightarrow> question list \<times> event list" where
  "fetch_all_questions queried =
     (case queried of
        Some questions \<Rightarrow> (questions, [Log (Fetched (length questions))])
      | None \<Rightarrow> ([], [Log Error_fetching, st_error ''Failed to retrieve questions.'']))"

text \<open>
  \<^verbatim>\<open>st.session_state\<close>: each of the four keys is present or absent. Times are in
  microseconds (the resolution of \<^verbatim>\<open>datetime\<close>); \<open>time_limit\<close> is in minutes.
\<close>

record session_state =
  current_question :: "int option"
  answers :: "(int \<rightharpoonup> string) option"
  start_time :: "int option"
  time_limit :: "int option"

text \<open>
  What one run of \<^verbatim>\<open>take_quiz\<close> reads from outside: the clock, at the initialisation
  of \<open>start_time\<close> and at the timer, and the values that the widgets return.
\<close>

record quiz_input =
  now_init :: int
  now :: int
  radio_selected :: "string option"
  btn_previous :: bool
  btn_save :: bool
  btn_next :: bool
  btn_submit :: bool
  chk_review :: bool

text \<open>\<^verbatim>\<open>questions[i]\<close>: a negative index counts from the end.\<close>

definition py_index :: "'a list \<Rightarrow> int \<Rightarrow> error + 'a" where
  "py_index xs i =
     (if 0 \<le> i \<and> i < int (length xs) then Inr (xs ! nat i)
      else if i < 0 \<and> - int (length xs) \<le> i then Inr (xs ! nat (int (length xs) + i))
      else Inl IndexError)"

text \<open>
  The \<^verbatim>\<open>index\<close> argument of the radio widget: \<open>-1\<close> without a recorded answer, else
  the position of the answer in \<^verbatim>\<open>['A', 'B', 'C', 'D']\<close>, where \<^verbatim>\<open>list.index\<close> raises
  ValueError on a value that is not in the list.
\<close>

fun list_index :: "'a list \<Rightarrow> 'a \<Rightarrow> error + int" where
  "list_index [] x = Inl ValueError"
| "list_index (y # ys) x =
     (if y = x then Inr 0
      else (case list_index ys x of Inl e \<Rightarrow> Inl e | Inr i \<Rightarrow> Inr (i + 1)))"

definition radio_index :: "string option \<Rightarrow> error + int" where
  "radio_index recorded =
     (case recorded of
        None \<Rightarrow> Inr (- 1)
      | Some a \<Rightarrow> list_index [''A'', ''B'', ''C'', ''D''] a)"

text \<open>\<^verbatim>\<open>timedelta(minutes=time_limit) - (datetime.now() - start_time)\<close>.\<close>

definition remaining_time :: "int \<Rightarrow> int \<Rightarrow> int \<Rightarrow> int" where
  "remaining_time limit t start = limit * 60000000 - (t - start)"

text \<open>
  The navigation buttons. \<^verbatim>\<open>Next\<close> is tested on the index that \<^verbatim>\<open>Previous\<close> may have
  lowered, and \<^verbatim>\<open>Submit\<close> only when the condition of \<^verbatim>\<open>Next\<close> is false. \<^verbatim>\<open>Submit\<close>
  scores the quiz and leaves the index as it is.
\<close>

definition navigation ::
  "question list \<Rightarrow> quiz_input \<Rightarrow> int \<Rightarrow> (int \<rightharpoonup> string) \<Rightarrow> int \<times> event list \<times> error option" where
  "navigation questions inp cur recorded =
     (let n = int (length questions);
          cur1 = (if btn_previous inp \<and> cur > 0 then cur - 1 else cur);
          saved = (if btn_save inp
                   then [st_success ''Your progress has been saved.'', Log Saved_progress]
                   else [])
      in if btn_next inp \<and> cur1 < n - 1 then (cur1 + 1, saved, None)
         else if btn_submit inp \<and> cur1 = n - 1
         then (case submit_quiz questions recorded of
                 Inl e \<Rightarrow> (cur1, saved, Some e)
               | Inr evs \<Rightarrow> (cur1, saved @ evs, None))
         else (cur1, saved, None))"

text \<open>
  The branch \<^verbatim>\<open>current_question < len(questions)\<close>: the question, the radio widget, the
  recording of the selected option, the buttons.
\<close>

definition show_question ::
  "question list \<Rightarrow> quiz_input \<Rightarrow> int \<Rightarrow> (int \<rightharpoonup> string) \<Rightarrow>
     int \<times> (int \<rightharpoonup> string) \<times> event list \<times> error option" where
  "show_question questions inp cur recorded =
     (case py_index questions cur of
        Inl e \<Rightarrow> (cur, recorded, [], Some e)
      | Inr question \<Rightarrow>
          (let shown =
                 [st_header (''Question '' @ str_int (cur + 1) @ '' of '' @ str_nat (length questions)),
                  st_write (question_text question)]
           in case radio_index (recorded (qid question)) of
                Inl e \<Rightarrow> (cur, recorded, shown, Some e)
              | Inr _ \<Rightarrow>
                  (let recorded' =
                         (case radio_selected inp of
                            None \<Rightarrow> recorded
                          | Some sel \<Rightarrow> if sel \<noteq> [] then recorded(qid question \<mapsto> sel) else recorded);
                       (cur', evs, err) = navigation questions inp cur recorded'
                   in (cur', recorded', shown @ evs, err))))"

text \<open>
  \<^verbatim>\<open>take_quiz\<close>, one run of the script: the session state after it, what it logged and
  showed, and the exception that ended it, if any.
\<close>

definition take_quiz ::
  "question list option \<Rightarrow> quiz_input \<Rightarrow> session_state \<Rightarrow> session_state \<times> event list \<times> error option" where
  "take_quiz queried inp s =
     (let (questions, fetched) = fetch_all_questions queried
      in if questions = []
         then (s, fetched @ [st_warning ''No questions available. Please contact the administrator.''], None)
         else
           (let cur = (case current_question s of None \<Rightarrow> 0 | Some c \<Rightarrow> c);
                recorded = (case answers s of None \<Rightarrow> Map.empty | Some a \<Rightarrow> a);
                start = (case start_time s of None \<Rightarrow> now_init inp | Some t \<Rightarrow> t);
                limit = (case time_limit s of None \<Rightarrow> 15 | Some l \<Rightarrow> l);
                remaining = remaining_time limit (now inp) start
            in if remaining \<le> 0
               then
                 (let s' = \<lparr>current_question = Some (int (length questions)), answers = Some recorded,
                            start_time = Some start, time_limit = Some limit\<rparr>;
                      up = fetched @ [st_success (''Time'' @ [CHR 0x27] @ ''s up! Submitting your answers...'')]
                  in case submit_quiz questions recorded of
                       Inl e \<Rightarrow> (s', up, Some e)
                     | Inr evs \<Rightarrow> (s', up @ evs, None))
               else
                 (let (cur', recorded', evs, err) =
                        (if cur < int (length questions)
                         then show_question questions inp cur recorded
                         else (case submit_quiz questions recorded of
                                 Inl e \<Rightarrow> (cur, recorded, [st_success ''You have completed the quiz!''], Some e)
                               | Inr sub \<Rightarrow>
                                   (cur, recorded, st_success ''You have completed the quiz!'' # sub, None)));
                      s' = \<lparr>current_question = Some cur', answers = Some recorded',
                            start_time = Some start, time_limit = Some limit\<rparr>;
                      page = fetched @ [st_sidebar_time remaining] @ evs
                  in case err of
                       Some e \<Rightarrow> (s', page, Some e)
                     | None \<Rightarrow>
                         if chk_review inp
                         then (let (rev, rerr) = review_answers questions recorded'
                               in (s', page @ rev, rerr))
                         else (s', page, None))))"

section \<open>Question store and intake\<close>

text \<open>
  A value of the uploaded JSON document, as \<^verbatim>\<open>json.loads\<close> returns it. An object is
  the list of the items of its dict, each key once; a number that is not an integer
  carries its literal.
\<close>

datatype json =
    JNull
  | JBool bool
  | JInt int
  | JFloat string
  | JStr string
  | JList "json list"
  | JObj "(string \<times> json) list"

text \<open>
  The storage engine and the ORM are outside the program. What the program itself
  declares about the table is in the class \<^verbatim>\<open>Question\<close>: six columns are
  \<^verbatim>\<open>nullable=False\<close>, and \<^verbatim>\<open>correct_option\<close> carries the CHECK constraint
  \<^verbatim>\<open>correct_option IN ('A', 'B', 'C', 'D')\<close>. An attribute that the keyword arguments
  do not set is \<^verbatim>\<open>None\<close>, that is NULL.
\<close>

definition column :: "(string \<times> json) list \<Rightarrow> string \<Rightarrow> json" where
  "column kwargs name = (case map_of kwargs name of None \<Rightarrow> JNull | Some v \<Rightarrow> v)"

definition not_null_columns :: "string list" where
  "not_null_columns =
     [''question_text'', ''option_a'', ''option_b'', ''option_c'', ''option_d'', ''correct_option'']"

definition not_null_ok :: "(string \<times> json) list \<Rightarrow> bool" where
  "not_null_ok kwargs = list_all (\<lambda>c. column kwargs c \<noteq> JNull) not_null_columns"

definition correct_option_check :: "(string \<times> json) list \<Rightarrow> bool" where
  "correct_option_check kwargs =
     (column kwargs ''correct_option'' \<in> set [JStr ''A'', JStr ''B'', JStr ''C'', JStr ''D''])"

text \<open>
  Everything else about an insert is the backend's: which keyword arguments the
  constructor takes, how a value is bound, the identifier the sequence assigns, whether
  the connection holds. A backend maps the table and the keyword arguments of a row that
  meets the declared constraints to the stored row, or to \<open>None\<close> when it raises.
\<close>

type_synonym backend = "question list \<Rightarrow> (string \<times> json) list \<Rightarrow> question option"

text \<open>
  The \<^verbatim>\<open>try\<close> block of \<^verbatim>\<open>add_question\<close>: \<^verbatim>\<open>Question(**question_data)\<close>, which needs a
  mapping, then \<^verbatim>\<open>session.add\<close> and \<^verbatim>\<open>session.commit\<close>.
\<close>

definition add_and_commit :: "backend \<Rightarrow> question list \<Rightarrow> json \<Rightarrow> error + question" where
  "add_and_commit backend rows question_data =
     (case question_data of
        JObj kwargs \<Rightarrow>
          if \<not> not_null_ok kwargs then Inl IntegrityError
          else if \<not> correct_option_check kwargs then Inl IntegrityError
          else (case backend rows kwargs of
                  None \<Rightarrow> Inl OperationalError
                | Some question \<Rightarrow> Inr question)
      | _ \<Rightarrow> Inl TypeError)"

text \<open>
  \<^verbatim>\<open>add_question\<close>: any exception of the \<^verbatim>\<open>try\<close> block is caught, the transaction is
  rolled back (the table is as before), and the result is \<^verbatim>\<open>False\<close>.
\<close>

definition add_question :: "backend \<Rightarrow> question list \<Rightarrow> json \<Rightarrow> bool \<times> question list \<times> event list" where
  "add_question backend rows question_data =
     (case add_and_commit backend rows question_data of
        Inr question \<Rightarrow> (True, rows @ [question], [Log (Added_question (qid question))])
      | Inl e \<Rightarrow> (False, rows, [Log (Error_adding e)]))"

text \<open>
  \<^verbatim>\<open>parse_json_questions\<close>. The argument is the outcome of \<^verbatim>\<open>json.loads\<close> on the text:
  the value, or \<open>None\<close> for JSONDecodeError.
\<close>

definition parse_json_questions :: "json option \<Rightarrow> json list \<times> event list" where
  "parse_json_questions loaded =
     (case loaded of
        None \<Rightarrow> ([], [Log JSON_decode_error, st_error ''Invalid JSON format.''])
      | Some (JList questions) \<Rightarrow> (questions, [Log (Parsed (length questions))])
      | Some _ \<Rightarrow> ([], [Log Not_a_list]))"

text \<open>
  \<^verbatim>\<open>field in q\<close>: a key of a dict, a substring of a string, an element of a list;
  TypeError on a number, a boolean or \<^verbatim>\<open>None\<close>.
\<close>

definition substring :: "string \<Rightarrow> string \<Rightarrow> bool" where
  "substring sub s = list_ex (\<lambda>i. take (length sub) (drop i s) = sub) [0..<Suc (length s)]"

definition py_in :: "string \<Rightarrow> json \<Rightarrow> error + bool" where
  "py_in field q =
     (case q of
        JObj kwargs \<Rightarrow> Inr (field \<in> set (map fst kwargs))
      | JStr s \<Rightarrow> Inr (substring field s)
      | JList xs \<Rightarrow> Inr (JStr field \<in> set xs)
      | _ \<Rightarrow> Inl TypeError)"

definition required_fields :: "string list" where
  "required_fields =
     [''question_text'', ''option_a'', ''option_b'', ''option_c'', ''option_d'', ''correct_option'',
      ''explanation'']"

text \<open>\<^verbatim>\<open>all(field in q for field in required_fields)\<close>: stops at the first field that is missing.\<close>

fun all_fields_in :: "string list \<Rightarrow> json \<Rightarrow> error + bool" where
  "all_fields_in [] q = Inr True"
| "all_fields_in (field # rest) q =
     (case py_in field q of
        Inl e \<Rightarrow> Inl e
      | Inr present \<Rightarrow> if present then all_fields_in rest q else Inr False)"

text \<open>
  The loop of the bulk entry. An exception of the validation leaves the loop; what was
  committed before stays committed.
\<close>

fun bulk_loop ::
  "backend \<Rightarrow> json list \<Rightarrow> question list \<Rightarrow> int \<Rightarrow> question list \<times> event list \<times> (error + int)" where
  "bulk_loop backend [] rows success_count = (rows, [], Inr success_count)"
| "bulk_loop backend (q # qs) rows success_count =
     (case all_fields_in required_fields q of
        Inl e \<Rightarrow> (rows, [], Inl e)
      | Inr valid \<Rightarrow>
          if valid
          then (let (success, rows', added) = add_question backend rows q;
                    (rows'', evs, r) =
                      bulk_loop backend qs rows' (if success then success_count + 1 else success_count)
                in (rows'', added @ evs, r))
          else (let (rows'', evs, r) = bulk_loop backend qs rows success_count
                in (rows'', Log Missing_fields_log # evs, r)))"

text \<open>
  The uploaded file: its bytes decode as UTF-8 or not, and the text is given by what
  \<^verbatim>\<open>json.loads\<close> makes of it.
\<close>

datatype uploaded = Not_utf8 | Text "json option"

definition bulk_entry :: "backend \<Rightarrow> question list \<Rightarrow> uploaded option \<Rightarrow> question list \<times> event list" where
  "bulk_entry backend rows uploaded_file =
     (case uploaded_file of
        None \<Rightarrow> (rows, [])
      | Some Not_utf8 \<Rightarrow>
          (rows, [Log (Error_processing UnicodeDecodeError),
                  st_error ''Failed to process the uploaded file.''])
      | Some (Text loaded) \<Rightarrow>
          (let (questions, parsed) = parse_json_questions loaded
           in if questions \<noteq> []
              then (case bulk_loop backend questions rows 0 of
                      (rows', evs, Inr success_count) \<Rightarrow>
                        (rows', parsed @ evs @
                           [st_success (''Successfully added '' @ str_int success_count @ '' questions.'')])
                    | (rows', evs, Inl e) \<Rightarrow>
                        (rows', parsed @ evs @
                           [Log (Error_processing e), st_error ''Failed to process the uploaded file.'']))
              else (rows, parsed)))"

text \<open>The form of the single entry, as submitted.\<close>

record form =
  form_question_text :: string
  form_option_a :: string
  form_option_b :: string
  form_option_c :: string
  form_option_d :: string
  form_correct_option :: string
  form_explanation :: string
  submitted :: bool

definition form_question_data :: "form \<Rightarrow> json" where
  "form_question_data f =
     JObj [(''question_text'', JStr (form_question_text f)),
           (''option_a'', JStr (form_option_a f)),
           (''option_b'', JStr (form_option_b f)),
           (''option_c'', JStr (form_option_c f)),
           (''option_d'', JStr (form_option_d f)),
           (''correct_option'', JStr (form_correct_option f)),
           (''explanation'', JStr (form_explanation f))]"

definition single_entry :: "backend \<Rightarrow> question list \<Rightarrow> form \<Rightarrow> question list \<times> event list" where
  "single_entry backend rows f =
     (if submitted f
      then (if list_all (\<lambda>x. x \<noteq> [])
                 [form_question_text f, form_option_a f, form_option_b f, form_option_c f,
                  form_option_d f, form_correct_option f]
            then (let (success, rows', added) = add_question backend rows (form_question_data f)
                  in if success then (rows', added @ [st_success ''Question added successfully!''])
                     else (rows', added @ [st_error ''Failed to add question. Check logs for details.'']))
            else (rows, [st_error ''Please fill in all fields.'']))
      else (rows, []))"

datatype add_method = Single_Entry form | Bulk_Entry "uploaded option"

definition admin_add_questions :: "backend \<Rightarrow> question list \<Rightarrow> add_method \<Rightarrow> question list \<times> event list" where
  "admin_add_questions backend rows method =
     (let (rows', evs) =
            (case method of
               Single_Entry f \<Rightarrow> single_entry backend rows f
             | Bulk_Entry uploaded_file \<Rightarrow> bulk_entry backend rows uploaded_file)
      in (rows', st_header ''Admin Panel: Add New Questions'' # evs))"

section \<open>Notions used to state the properties\<close>

definition option_letters :: "string set" where
  "option_letters = {''A'', ''B'', ''C'', ''D''}"

text \<open>A question counts as correct when the answers hold its correct option under its id.\<close>

definition is_correct :: "(int \<rightharpoonup> string) \<Rightarrow> question \<Rightarrow> bool" where
  "is_correct recorded q = (recorded (qid q) = Some (correct_option q))"

text \<open>
  Questions as the table's CHECK constraint leaves them, and answers as the radio widget
  over \<^verbatim>\<open>['A', 'B', 'C', 'D']\<close> records them.
\<close>

definition wf_questions :: "question list \<Rightarrow> bool" where
  "wf_questions qs = (\<forall>q \<in> set qs. correct_option q \<in> option_letters)"

definition wf_answers :: "(int \<rightharpoonup> string) \<Rightarrow> bool" where
  "wf_answers recorded = (\<forall>k a. recorded k = Some a \<longrightarrow> a \<in> option_letters)"

text \<open>The values that \<^verbatim>\<open>take_quiz\<close> works with once the missing keys have their defaults.\<close>

definition limit_of :: "session_state \<Rightarrow> int" where
  "limit_of s = (case time_limit s of None \<Rightarrow> 15 | Some l \<Rightarrow> l)"

definition start_of :: "quiz_input \<Rightarrow> session_state \<Rightarrow> int" where
  "start_of inp s = (case start_time s of None \<Rightarrow> now_init inp | Some t \<Rightarrow> t)"

definition recorded_of :: "session_state \<Rightarrow> (int \<rightharpoonup> string)" where
  "recorded_of s = (case answers s of None \<Rightarrow> Map.empty | Some a \<Rightarrow> a)"

text \<open>\<open>now - start_time \<ge> time_limit\<close>, the limit being in minutes.\<close>

definition time_is_up :: "quiz_input \<Rightarrow> session_state \<Rightarrow> bool" where
  "time_is_up inp s = (now inp - start_of inp s \<ge> limit_of s * 60000000)"

definition index_in_bounds :: "question list \<Rightarrow> session_state \<Rightarrow> bool" where
  "index_in_bounds questions s =
     (case current_question s of
        None \<Rightarrow> True
      | Some i \<Rightarrow> 0 \<le> i \<and> i \<le> int (length questions))"

definition empty_session :: session_state where
  "empty_session = \<lparr>current_question = None, answers = None, start_time = None, time_limit = None\<rparr>"

text \<open>A session over a fixed list of questions: one run of \<^verbatim>\<open>take_quiz\<close> per interaction.\<close>

fun renders :: "question list \<Rightarrow> quiz_input list \<Rightarrow> session_state \<Rightarrow> session_state" where
  "renders questions [] s = s"
| "renders questions (inp # inps) s = renders questions inps (fst (take_quiz (Some questions) inp s))"


text \<open>
  Every call of \<^verbatim>\<open>add_question\<close> writes one log line, for the row added or for the error:
  the insert attempts of a run are these lines. The messages on the page are the events
  that are not log lines.
\<close>

definition is_insert_attempt :: "event \<Rightarrow> bool" where
  "is_insert_attempt ev =
     (case ev of Log (Added_question _) \<Rightarrow> True | Log (Error_adding _) \<Rightarrow> True | _ \<Rightarrow> False)"

definition insert_attempts :: "event list \<Rightarrow> nat" where
  "insert_attempts evs = length (filter is_insert_attempt evs)"

definition is_skip :: "event \<Rightarrow> bool" where
  "is_skip ev = (case ev of Log Missing_fields_log \<Rightarrow> True | _ \<Rightarrow> False)"

definition is_added :: "event \<Rightarrow> bool" where
  "is_added ev = (case ev of Log (Added_question _) \<Rightarrow> True | _ \<Rightarrow> False)"

definition ui_messages :: "event list \<Rightarrow> event list" where
  "ui_messages evs = filter (\<lambda>ev. case ev of Log _ \<Rightarrow> False | _ \<Rightarrow> True) evs"


text \<open>The values on which \<^verbatim>\<open>field in q\<close> does not raise.\<close>

definition is_container :: "json \<Rightarrow> bool" where
  "is_container v = (case v of JObj _ \<Rightarrow> True | JStr _ \<Rightarrow> True | JList _ \<Rightarrow> True | _ \<Rightarrow> False)"


subsection \<open>Examples\<close>

text \<open>A backend that takes every row it is given and numbers the rows from 1.\<close>

definition text_of :: "json \<Rightarrow> string" where
  "text_of v = (case v of JStr s \<Rightarrow> s | _ \<Rightarrow> [])"

definition example_backend :: backend where
  "example_backend rows kwargs =
     Some \<lparr>qid = int (length rows) + 1,
           question_text = text_of (column kwargs ''question_text''),
           option_a = text_of (column kwargs ''option_a''),
           option_b = text_of (column kwargs ''option_b''),
           option_c = text_of (column kwargs ''option_c''),
           option_d = text_of (column kwargs ''option_d''),
           correct_option = text_of (column kwargs ''correct_option''),
           explanation = (case column kwargs ''explanation'' of JStr s \<Rightarrow> Some s | _ \<Rightarrow> None)\<rparr>"

definition example_record :: "string \<Rightarrow> json" where
  "example_record c =
     JObj [(''question_text'', JStr ''2 + 2?''), (''option_a'', JStr ''3''), (''option_b'', JStr ''4''),
           (''option_c'', JStr ''5''), (''option_d'', JStr ''6''), (''correct_option'', JStr c),
           (''explanation'', JStr ''sum'')]"

definition example_form :: "string \<Rightarrow> form" where
  "example_form c =
     \<lparr>form_question_text = ''2 + 2?'', form_option_a = ''3'', form_option_b = ''4'',
      form_option_c = c, form_option_d = ''6'', form_correct_option = ''B'',
      form_explanation = ''sum'', submitted = True\<rparr>"

definition example_question :: "int \<Rightarrow> string \<Rightarrow> question" where
  "example_question i c =
     \<lparr>qid = i, question_text = ''2 + 2?'', option_a = ''3'', option_b = ''4'', option_c = ''5'',
      option_d = ''6'', correct_option = c, explanation = Some ''sum''\<rparr>"

definition example_questions :: "question list" where
  "example_questions = [example_question 1 ''B'', example_question 2 ''B'', example_question 3 ''C'']"

text \<open>A session started at time 0 that stands at index \<open>i\<close>, nothing answered yet.\<close>

definition example_session :: "int \<Rightarrow> session_state" where
  "example_session i =
     \<lparr>current_question = Some i, answers = Some Map.empty, start_time = Some 0, time_limit = Some 15\<rparr>"

text \<open>An interaction at time 0 in which no widget is used.\<close>

definition idle :: quiz_input where
  "idle = \<lparr>now_init = 0, now = 0, radio_selected = None, btn_previous = False, btn_save = False,
            btn_next = False, btn_submit = False, chk_review = False\<rparr>"

section \<open>Scoring: the score and the lookups\<close>

lemma lower_letters:
  "lower ''A'' = ''a''" "lower ''B'' = ''b''" "lower ''C'' = ''c''" "lower ''D'' = ''d''"
  by (simp_all add: lower_def lower_char_def)

lemma lower_No_Answer: "lower ''No Answer'' = ''no answer''"
  by (simp add: lower_def lower_char_def)

lemma getattr_option_letter:
  "s \<in> option_letters \<Longrightarrow>
     \<exists>t. getattr_option q (lower s) = Inr t \<and> t \<in> {option_a q, option_b q, option_c q, option_d q}"
  by (auto simp: option_letters_def getattr_option_def lower_letters)

lemma correct_answer_text_not_sentinel:
  "correct_answer_text q = Inr ca \<Longrightarrow> correct_option q \<noteq> ''No Answer''"
  by (auto simp: correct_answer_text_def lower_No_Answer getattr_option_def split: sum.splits if_splits)

lemma is_correct_get_answer:
  "correct_option q \<noteq> ''No Answer'' \<Longrightarrow>
     (get_answer recorded q = correct_option q) = is_correct recorded q"
  by (auto simp: get_answer_def is_correct_def split: option.splits)

text \<open>
  Whenever the loop returns, it has added one to the score for each correct question and
  one row for each question, marked by the same test.
\<close>

lemma submit_quiz_loop_Inr:
  "submit_quiz_loop recorded qs score results = Inr (score', results') \<Longrightarrow>
     score' = score + int (length (filter (is_correct recorded) qs)) \<and>
     map Result results' =
       map Result results @ map (\<lambda>q. if is_correct recorded q then ''Correct'' else ''Incorrect'') qs"
proof (induction qs arbitrary: score results)
  case Nil
  then show ?case by simp
next
  case (Cons q qs)
  from Cons.prems obtain ya ca where
    ya: "your_answer_text q (get_answer recorded q) = Inr ya" and
    ca: "correct_answer_text q = Inr ca"
    by (auto simp: Let_def split: sum.splits)
  have ne: "correct_option q \<noteq> ''No Answer''"
    using ca by (rule correct_answer_text_not_sentinel)
  have c: "(get_answer recorded q = correct_option q) = is_correct recorded q"
    using ne by (rule is_correct_get_answer)
  from Cons.prems ya ca have
    "submit_quiz_loop recorded qs (if is_correct recorded q then score + 1 else score)
       (results @ [\<lparr>Question = question_text q, Your_Answer = ya, Correct_Answer = ca,
          Explanation = explanation q,
          Result = (if is_correct recorded q then ''Correct'' else ''Incorrect'')\<rparr>]) =
     Inr (score', results')"
    by (simp add: Let_def c)
  from Cons.IH [OF this] show ?case by simp
qed

lemma your_answer_text_total:
  assumes "wf_answers recorded"
  shows "\<exists>ya. your_answer_text q (get_answer recorded q) = Inr ya"
proof (cases "recorded (qid q)")
  case None
  then show ?thesis by (simp add: your_answer_text_def get_answer_def)
next
  case (Some a)
  with assms have "a \<in> option_letters" by (auto simp: wf_answers_def)
  from getattr_option_letter [OF this, of q] Some show ?thesis
    by (auto simp: your_answer_text_def get_answer_def)
qed

lemma correct_answer_text_total:
  "correct_option q \<in> option_letters \<Longrightarrow> \<exists>ca. correct_answer_text q = Inr ca"
  using getattr_option_letter [of "correct_option q" q]
  by (auto simp: correct_answer_text_def)

lemma submit_quiz_loop_total:
  "wf_questions qs \<Longrightarrow> wf_answers recorded \<Longrightarrow>
     \<exists>r. submit_quiz_loop recorded qs score results = Inr r"
proof (induction qs arbitrary: score results)
  case Nil
  then show ?case by simp
next
  case (Cons q qs)
  from Cons.prems have wq: "correct_option q \<in> option_letters" and wqs: "wf_questions qs"
    by (auto simp: wf_questions_def)
  from your_answer_text_total [OF Cons.prems(2), of q] obtain ya
    where ya: "your_answer_text q (get_answer recorded q) = Inr ya" by blast
  from correct_answer_text_total [OF wq] obtain ca where ca: "correct_answer_text q = Inr ca" by blast
  show ?case using ya ca Cons.IH [OF wqs Cons.prems(2)] by (simp add: Let_def)
qed

lemma review_answers_loop_total:
  "wf_questions qs \<Longrightarrow> wf_answers recorded \<Longrightarrow> snd (review_answers_loop recorded idx qs) = None"
proof (induction qs arbitrary: idx)
  case Nil
  then show ?case by simp
next
  case (Cons q qs)
  from Cons.prems have wq: "correct_option q \<in> option_letters" and wqs: "wf_questions qs"
    by (auto simp: wf_questions_def)
  from getattr_option_letter [OF wq, of q] obtain t
    where t: "getattr_option q (lower (correct_option q)) = Inr t" by blast
  have ih: "snd (review_answers_loop recorded (Suc idx) qs) = None"
    by (rule Cons.IH [OF wqs Cons.prems(2)])
  show ?case
  proof (cases "get_answer recorded q = ''No Answer''")
    case True
    then show ?thesis using t ih by (auto simp: Let_def split: prod.splits)
  next
    case False
    with your_answer_text_total [OF Cons.prems(2), of q] obtain u
      where "getattr_option q (lower (get_answer recorded q)) = Inr u"
      by (auto simp: your_answer_text_def split: sum.splits)
    with False show ?thesis using t ih by (auto simp: Let_def split: prod.splits)
  qed
qed

lemma example_questions_wf: "wf_questions example_questions"
  by (simp add: wf_questions_def example_questions_def example_question_def option_letters_def)

lemma example_answers_wf: "wf_answers [1 \<mapsto> ''B'', 3 \<mapsto> ''A'']"
  by (auto simp: wf_answers_def option_letters_def split: if_splits)

text \<open>
  C1. The scoring pass returns a score equal to the number of questions whose id has an
  entry in the answers that equals the question's correct option. Whenever the loop of
  \<^verbatim>\<open>submit_quiz\<close> returns, its score is that number and each row is marked by the same
  test; on questions and answers made of the four letters it does return, and the score
  line and the log line carry that number. A question without an entry is never counted:
  the sentinel is not one of the letters, and where the correct option is not a letter
  the lookup of its text raises before any score is returned.
\<close>

theorem submit_quiz_score:
  "(\<forall>score results. submit_quiz_loop recorded qs 0 [] = Inr (score, results) \<longrightarrow>
      score = int (length (filter (is_correct recorded) qs)) \<and>
      map Result results = map (\<lambda>q. if is_correct recorded q then ''Correct'' else ''Incorrect'') qs) \<and>
   (wf_questions qs \<and> wf_answers recorded \<longrightarrow>
      (\<exists>results.
         submit_quiz qs recorded =
           Inr [st_header ''Quiz Results'',
                st_write (''**Your Score:** '' @ str_int (int (length (filter (is_correct recorded) qs)))
                          @ '' / '' @ str_nat (length qs)),
                st_dataframe results,
                Log (Submitted (int (length (filter (is_correct recorded) qs))) (length qs))] \<and>
         map Result results = map (\<lambda>q. if is_correct recorded q then ''Correct'' else ''Incorrect'') qs)) \<and>
   (\<forall>q :: question. recorded (qid q) = None \<longrightarrow> \<not> is_correct recorded q) \<and>
   ''No Answer'' \<notin> option_letters"
proof (intro conjI allI impI)
  fix score results
  assume "submit_quiz_loop recorded qs 0 [] = Inr (score, results)"
  from submit_quiz_loop_Inr [OF this]
  show "score = int (length (filter (is_correct recorded) qs))"
    and "map Result results = map (\<lambda>q. if is_correct recorded q then ''Correct'' else ''Incorrect'') qs"
    by simp_all
next
  assume wf: "wf_questions qs \<and> wf_answers recorded"
  then obtain score results where r: "submit_quiz_loop recorded qs 0 [] = Inr (score, results)"
    using submit_quiz_loop_total [of qs recorded 0 "[]"] by auto
  from submit_quiz_loop_Inr [OF r] r
  show "\<exists>results.
         submit_quiz qs recorded =
           Inr [st_header ''Quiz Results'',
                st_write (''**Your Score:** '' @ str_int (int (length (filter (is_correct recorded) qs)))
                          @ '' / '' @ str_nat (length qs)),
                st_dataframe results,
                Log (Submitted (int (length (filter (is_correct recorded) qs))) (length qs))] \<and>
         map Result results = map (\<lambda>q. if is_correct recorded q then ''Correct'' else ''Incorrect'') qs"
    by (simp add: submit_quiz_def)
next
  fix q :: question assume "recorded (qid q) = None"
  then show "\<not> is_correct recorded q" by (simp add: is_correct_def)
next
  show "''No Answer'' \<notin> option_letters" by (simp add: option_letters_def)
qed

text \<open>
  Three questions, the first answered rightly, the second not answered, the third
  answered wrongly: the score is 1 of 3.
\<close>

theorem submit_quiz_score_witness:
  "wf_questions example_questions \<and> wf_answers [1 \<mapsto> ''B'', 3 \<mapsto> ''A''] \<and>
   length (filter (is_correct [1 \<mapsto> ''B'', 3 \<mapsto> ''A'']) example_questions) = 1 \<and>
   [1 \<mapsto> ''B'', 3 \<mapsto> ''A''] (qid (example_question 2 ''B'')) = None \<and>
   \<not> is_correct [1 \<mapsto> ''B'', 3 \<mapsto> ''A''] (example_question 2 ''B'') \<and>
   (\<exists>results.
      submit_quiz_loop [1 \<mapsto> ''B'', 3 \<mapsto> ''A''] example_questions 0 [] = Inr (1, results) \<and>
      map Result results = [''Correct'', ''Incorrect'', ''Incorrect'']) \<and>
   (\<exists>results.
      submit_quiz example_questions [1 \<mapsto> ''B'', 3 \<mapsto> ''A''] =
        Inr [st_header ''Quiz Results'', st_write ''**Your Score:** 1 / 3'', st_dataframe results,
             Log (Submitted 1 3)] \<and>
      map Result results = [''Correct'', ''Incorrect'', ''Incorrect''])"
proof -
  let ?a = "[1 \<mapsto> ''B'', 3 \<mapsto> ''A'']"
  note t = submit_quiz_score [of ?a example_questions]
  have n: "length (filter (is_correct ?a) example_questions) = 1"
    by (simp add: is_correct_def example_questions_def example_question_def)
  have s: "str_int 1 = ''1''" "str_nat 3 = ''3''"
    by code_simp+
  have l: "length example_questions = 3"
    by (simp add: example_questions_def)
  have m: "map (\<lambda>q. if is_correct ?a q then ''Correct'' else ''Incorrect'') example_questions =
      [''Correct'', ''Incorrect'', ''Incorrect'']"
    by (simp add: is_correct_def example_questions_def example_question_def)
  have u: "?a (qid (example_question 2 ''B'')) = None"
    by (simp add: example_question_def)
  from t u have c: "\<not> is_correct ?a (example_question 2 ''B'')"
    by blast
  from submit_quiz_loop_total [OF example_questions_wf example_answers_wf, of 0 "[]"]
  obtain score results where r: "submit_quiz_loop ?a example_questions 0 [] = Inr (score, results)"
    by auto
  with t have "score = int (length (filter (is_correct ?a) example_questions))"
    and "map Result results =
      map (\<lambda>q. if is_correct ?a q then ''Correct'' else ''Incorrect'') example_questions"
    by blast+
  with r have loop: "\<exists>results. submit_quiz_loop ?a example_questions 0 [] = Inr (1, results) \<and>
      map Result results = [''Correct'', ''Incorrect'', ''Incorrect'']"
    by (simp add: n m)
  from t example_questions_wf example_answers_wf
  have "\<exists>results.
      submit_quiz example_questions ?a =
        Inr [st_header ''Quiz Results'', st_write ''**Your Score:** 1 / 3'', st_dataframe results,
             Log (Submitted 1 3)] \<and>
      map Result results = [''Correct'', ''Incorrect'', ''Incorrect'']"
    by (simp add: n s l m)
  with example_questions_wf example_answers_wf n u c loop show ?thesis by blast
qed

text \<open>
  C9. On questions whose correct option is one of the four letters and answers whose
  values are among them, each lookup \<^verbatim>\<open>getattr(question, 'option_' + letter.lower())\<close>
  that scoring and review make resolves to one of the four option fields. The sentinel
  would not resolve, and the branch taken for it makes no lookup. So \<^verbatim>\<open>submit_quiz\<close>
  and \<^verbatim>\<open>review_answers\<close> end without an exception.
\<close>

theorem option_lookup_total:
  assumes "wf_questions qs" and "wf_answers recorded"
  shows "(\<forall>q \<in> set qs. \<exists>t. getattr_option q (lower (correct_option q)) = Inr t \<and>
            t \<in> {option_a q, option_b q, option_c q, option_d q}) \<and>
         (\<forall>q \<in> set qs. \<forall>a. recorded (qid q) = Some a \<longrightarrow>
            (\<exists>t. getattr_option q (lower a) = Inr t \<and>
               t \<in> {option_a q, option_b q, option_c q, option_d q})) \<and>
         (\<forall>q. getattr_option q (lower ''No Answer'') = Inl AttributeError \<and>
            your_answer_text q ''No Answer'' = Inr ''No Answer'') \<and>
         (\<exists>evs. submit_quiz qs recorded = Inr evs) \<and>
         snd (review_answers qs recorded) = None"
proof (intro conjI ballI allI impI)
  fix q assume "q \<in> set qs"
  with assms(1) have "correct_option q \<in> option_letters" by (simp add: wf_questions_def)
  then show "\<exists>t. getattr_option q (lower (correct_option q)) = Inr t \<and>
      t \<in> {option_a q, option_b q, option_c q, option_d q}"
    by (rule getattr_option_letter)
next
  fix q :: question and a assume "recorded (qid q) = Some a"
  with assms(2) have "a \<in> option_letters" by (auto simp: wf_answers_def)
  then show "\<exists>t. getattr_option q (lower a) = Inr t \<and>
      t \<in> {option_a q, option_b q, option_c q, option_d q}"
    by (rule getattr_option_letter)
next
  fix q show "getattr_option q (lower ''No Answer'') = Inl AttributeError"
    by (simp add: lower_No_Answer getattr_option_def)
next
  fix q show "your_answer_text q ''No Answer'' = Inr ''No Answer''"
    by (simp add: your_answer_text_def)
next
  from submit_quiz_loop_total [OF assms, of 0 "[]"]
  show "\<exists>evs. submit_quiz qs recorded = Inr evs"
    by (auto simp: submit_quiz_def)
next
  from review_answers_loop_total [OF assms, of 1]
  show "snd (review_answers qs recorded) = None"
    by (simp add: review_answers_def case_prod_beta)
qed

theorem option_lookup_total_witness:
  "wf_questions example_questions \<and> wf_answers [1 \<mapsto> ''B'', 3 \<mapsto> ''A''] \<and>
   getattr_option (example_question 3 ''C'') (lower ''C'') = Inr ''5'' \<and>
   getattr_option (example_question 3 ''C'') (lower ''A'') = Inr ''3'' \<and>
   (\<exists>evs. submit_quiz example_questions [1 \<mapsto> ''B'', 3 \<mapsto> ''A''] = Inr evs) \<and>
   snd (review_answers example_questions [1 \<mapsto> ''B'', 3 \<mapsto> ''A'']) = None"
proof -
  have g: "getattr_option (example_question 3 ''C'') (lower ''C'') = Inr ''5''"
    "getattr_option (example_question 3 ''C'') (lower ''A'') = Inr ''3''"
    by (simp_all add: getattr_option_def lower_letters example_question_def)
  from option_lookup_total [OF example_questions_wf example_answers_wf] g
    example_questions_wf example_answers_wf
  show ?thesis by simp
qed

section \<open>Quiz session: the timer and the index\<close>

lemma take_quiz_no_questions:
  "fst (fetch_all_questions queried) = [] \<Longrightarrow>
     take_quiz queried inp s =
       (s, snd (fetch_all_questions queried) @
           [st_warning ''No questions available. Please contact the administrator.''], None)"
  by (simp add: take_quiz_def case_prod_beta)

lemma take_quiz_time_up:
  assumes "questions \<noteq> []" and "time_is_up inp s"
  shows "take_quiz (Some questions) inp s =
     (\<lparr>current_question = Some (int (length questions)), answers = Some (recorded_of s),
       start_time = Some (start_of inp s), time_limit = Some (limit_of s)\<rparr>,
      [Log (Fetched (length questions)),
       st_success (''Time'' @ [CHR 0x27] @ ''s up! Submitting your answers...'')] @
        (case submit_quiz questions (recorded_of s) of Inl e \<Rightarrow> [] | Inr evs \<Rightarrow> evs),
      (case submit_quiz questions (recorded_of s) of Inl e \<Rightarrow> Some e | Inr evs \<Rightarrow> None))"
  using assms
  by (simp add: take_quiz_def fetch_all_questions_def Let_def remaining_time_def time_is_up_def
      limit_of_def start_of_def recorded_of_def split: sum.splits)

lemma time_is_up_widgets:
  "time_is_up (inp\<lparr>radio_selected := sel, btn_previous := p, btn_save := sv, btn_next := n,
      btn_submit := sb, chk_review := r\<rparr>) (s\<lparr>current_question := c\<rparr>) = time_is_up inp s"
  by (simp add: time_is_up_def start_of_def limit_of_def split: option.splits)

lemma navigation_fst:
  "fst (navigation questions inp cur recorded) =
     (let cur1 = (if btn_previous inp \<and> cur > 0 then cur - 1 else cur)
      in if btn_next inp \<and> cur1 < int (length questions) - 1 then cur1 + 1 else cur1)"
  by (simp add: navigation_def Let_def split: sum.splits)

lemma show_question_fst:
  "fst (show_question questions inp cur recorded) = cur \<or>
   fst (show_question questions inp cur recorded) =
     (let cur1 = (if btn_previous inp \<and> cur > 0 then cur - 1 else cur)
      in if btn_next inp \<and> cur1 < int (length questions) - 1 then cur1 + 1 else cur1)"
  unfolding show_question_def Let_def case_prod_beta
  by (simp add: navigation_fst Let_def split: sum.splits option.splits)

lemma take_quiz_index:
  assumes "questions \<noteq> []" and "\<not> time_is_up inp s"
  shows "current_question (fst (take_quiz (Some questions) inp s)) =
     Some (let cur = (case current_question s of None \<Rightarrow> 0 | Some c \<Rightarrow> c)
           in if cur < int (length questions)
              then fst (show_question questions inp cur (recorded_of s)) else cur)"
  using assms
  by (simp add: take_quiz_def fetch_all_questions_def Let_def remaining_time_def time_is_up_def
      limit_of_def start_of_def recorded_of_def case_prod_beta split: sum.splits option.splits)

text \<open>The index after a run: unchanged, moved by the buttons, or forced to the end.\<close>

lemma take_quiz_index_cases:
  "current_question (fst (take_quiz (Some questions) inp s)) = current_question s \<or>
   (questions \<noteq> [] \<and> time_is_up inp s \<and>
      current_question (fst (take_quiz (Some questions) inp s)) = Some (int (length questions))) \<or>
   (questions \<noteq> [] \<and> \<not> time_is_up inp s \<and>
      (\<exists>cur. cur = (case current_question s of None \<Rightarrow> 0 | Some c \<Rightarrow> c) \<and>
         (cur < int (length questions) \<or> current_question s = None) \<and>
         (current_question (fst (take_quiz (Some questions) inp s)) = Some cur \<or>
          current_question (fst (take_quiz (Some questions) inp s)) =
            Some (let cur1 = (if btn_previous inp \<and> cur > 0 then cur - 1 else cur)
                  in if btn_next inp \<and> cur1 < int (length questions) - 1 then cur1 + 1 else cur1))))"
proof (cases "questions = []")
  case True
  then show ?thesis by (simp add: take_quiz_no_questions fetch_all_questions_def)
next
  case ne: False
  show ?thesis
  proof (cases "time_is_up inp s")
    case True
    from take_quiz_time_up [OF ne True] ne True show ?thesis by simp
  next
    case False
    let ?cur = "case current_question s of None \<Rightarrow> 0 | Some c \<Rightarrow> c"
    note idx = take_quiz_index [OF ne False]
    note sq = show_question_fst [of questions inp ?cur "recorded_of s"]
    show ?thesis
    proof (cases "?cur < int (length questions)")
      case True
      with idx sq ne False show ?thesis by (auto simp: Let_def)
    next
      case False
      with idx ne \<open>\<not> time_is_up inp s\<close> show ?thesis
        by (auto simp: Let_def split: option.splits)
    qed
  qed
qed

lemma take_quiz_in_bounds:
  assumes "index_in_bounds questions s"
  shows "index_in_bounds questions (fst (take_quiz (Some questions) inp s))"
  using take_quiz_index_cases [of questions inp s] assms
  by (auto simp: index_in_bounds_def Let_def split: option.splits if_splits)

lemma renders_in_bounds:
  "index_in_bounds questions s \<Longrightarrow> index_in_bounds questions (renders questions inps s)"
  by (induction inps arbitrary: s) (simp_all add: take_quiz_in_bounds)

lemma previous_at_first:
  assumes "\<not> time_is_up inp s" and "current_question s = Some 0"
    and "btn_previous inp" and "\<not> btn_next inp"
  shows "current_question (fst (take_quiz (Some questions) inp s)) = Some 0"
  using take_quiz_index_cases [of questions inp s] assms
  by (auto simp: Let_def)

lemma next_at_last:
  assumes "\<not> time_is_up inp s" and "current_question s = Some (int (length questions) - 1)"
    and "btn_next inp"
  shows "current_question (fst (take_quiz (Some questions) inp s)) = Some (int (length questions) - 1)"
  using take_quiz_index_cases [of questions inp s] assms
  by (auto simp: Let_def split: if_splits)

lemma end_only_by_timer:
  assumes "current_question (fst (take_quiz (Some questions) inp s)) = Some (int (length questions))"
  shows "(questions \<noteq> [] \<and> time_is_up inp s) \<or> current_question s = Some (int (length questions))"
  using take_quiz_index_cases [of questions inp s] assms
  by (auto simp: Let_def split: if_splits option.splits)


lemma take_quiz_widgets_time_up:
  assumes "questions \<noteq> []" and "time_is_up inp s"
  shows "take_quiz (Some questions)
           (inp\<lparr>radio_selected := sel, btn_previous := p, btn_save := sv, btn_next := n,
              btn_submit := sb, chk_review := r\<rparr>) (s\<lparr>current_question := c\<rparr>) =
         take_quiz (Some questions) inp s"
proof -
  let ?inp = "inp\<lparr>radio_selected := sel, btn_previous := p, btn_save := sv, btn_next := n,
      btn_submit := sb, chk_review := r\<rparr>"
  let ?s = "s\<lparr>current_question := c\<rparr>"
  have up: "time_is_up ?inp ?s" using assms(2) by (simp only: time_is_up_widgets)
  have same: "recorded_of ?s = recorded_of s" "start_of ?inp ?s = start_of inp s"
    "limit_of ?s = limit_of s"
    by (simp_all add: recorded_of_def start_of_def limit_of_def split: option.splits)
  show ?thesis
    by (simp only: take_quiz_time_up [OF assms(1) up] take_quiz_time_up [OF assms] same)
qed

text \<open>
  C3, as the code has it. On every run of the quiz view in which at least one question is
  fetched and \<open>now - start_time \<ge> time_limit\<close> holds, the index is set to the number of
  questions and the quiz is scored (the page shows the results, or the exception of the
  scoring ends the run), whatever the index was and whatever the widgets return in that
  run. Without a fetched question the run ends before the timer is read and leaves the
  session as it is.
\<close>

theorem time_up_wins:
  "(questions \<noteq> [] \<and> time_is_up inp s \<longrightarrow>
      take_quiz (Some questions) inp s =
        (\<lparr>current_question = Some (int (length questions)), answers = Some (recorded_of s),
          start_time = Some (start_of inp s), time_limit = Some (limit_of s)\<rparr>,
         [Log (Fetched (length questions)),
          st_success (''Time'' @ [CHR 0x27] @ ''s up! Submitting your answers...'')] @
           (case submit_quiz questions (recorded_of s) of Inl e \<Rightarrow> [] | Inr evs \<Rightarrow> evs),
         (case submit_quiz questions (recorded_of s) of Inl e \<Rightarrow> Some e | Inr evs \<Rightarrow> None)) \<and>
      (\<forall>sel p sv n sb r c.
         take_quiz (Some questions)
           (inp\<lparr>radio_selected := sel, btn_previous := p, btn_save := sv, btn_next := n,
              btn_submit := sb, chk_review := r\<rparr>) (s\<lparr>current_question := c\<rparr>) =
         take_quiz (Some questions) inp s)) \<and>
   fst (take_quiz (Some []) inp s) = s \<and>
   fst (take_quiz None inp s) = s"
proof (intro conjI impI allI)
  assume a: "questions \<noteq> [] \<and> time_is_up inp s"
  then show "take_quiz (Some questions) inp s =
        (\<lparr>current_question = Some (int (length questions)), answers = Some (recorded_of s),
          start_time = Some (start_of inp s), time_limit = Some (limit_of s)\<rparr>,
         [Log (Fetched (length questions)),
          st_success (''Time'' @ [CHR 0x27] @ ''s up! Submitting your answers...'')] @
           (case submit_quiz questions (recorded_of s) of Inl e \<Rightarrow> [] | Inr evs \<Rightarrow> evs),
         (case submit_quiz questions (recorded_of s) of Inl e \<Rightarrow> Some e | Inr evs \<Rightarrow> None))"
    by (simp add: take_quiz_time_up)
  fix sel p sv n sb r c
  from a show "take_quiz (Some questions)
           (inp\<lparr>radio_selected := sel, btn_previous := p, btn_save := sv, btn_next := n,
              btn_submit := sb, chk_review := r\<rparr>) (s\<lparr>current_question := c\<rparr>) =
         take_quiz (Some questions) inp s"
    by (simp add: take_quiz_widgets_time_up)
next
  show "fst (take_quiz (Some []) inp s) = s"
    by (simp add: take_quiz_no_questions fetch_all_questions_def)
next
  show "fst (take_quiz None inp s) = s"
    by (simp add: take_quiz_no_questions fetch_all_questions_def)
qed

lemma example_time_up: "time_is_up (idle\<lparr>now := 900000000\<rparr>) (example_session i)"
  by (simp add: time_is_up_def idle_def example_session_def start_of_def limit_of_def)

lemma example_not_time_up:
  "\<not> time_is_up (idle\<lparr>btn_previous := p, btn_next := n\<rparr>) (example_session i)"
  by (simp add: time_is_up_def idle_def example_session_def start_of_def limit_of_def)

lemma example_questions_length: "example_questions \<noteq> []" "int (length example_questions) = 3"
  by (simp_all add: example_questions_def)

text \<open>
  Fifteen minutes after the start, at index 1 with \<^verbatim>\<open>Previous\<close> pressed: the index
  becomes 3, the number of questions.
\<close>

theorem time_up_wins_witness:
  "example_questions \<noteq> [] \<and>
   time_is_up (idle\<lparr>now := 900000000, btn_previous := True\<rparr>) (example_session 1) \<and>
   current_question
     (fst (take_quiz (Some example_questions) (idle\<lparr>now := 900000000, btn_previous := True\<rparr>)
        (example_session 1))) = Some 3 \<and>
   take_quiz (Some example_questions) (idle\<lparr>now := 900000000, btn_previous := True\<rparr>)
     (example_session 1) =
   take_quiz (Some example_questions) (idle\<lparr>now := 900000000\<rparr>) (example_session 2)"
proof -
  let ?inp = "idle\<lparr>now := 900000000, btn_previous := True\<rparr>"
  have up: "time_is_up ?inp (example_session 1)"
    by (simp add: time_is_up_def idle_def example_session_def start_of_def limit_of_def)
  have i: "?inp\<lparr>radio_selected := None, btn_previous := False, btn_save := False, btn_next := False,
      btn_submit := False, chk_review := False\<rparr> = idle\<lparr>now := 900000000\<rparr>"
    by (simp add: idle_def)
  have s: "(example_session 1)\<lparr>current_question := Some 2\<rparr> = example_session 2"
    by (simp add: example_session_def)
  from time_up_wins [of example_questions ?inp "example_session 1"] up example_questions_length
  have "current_question (fst (take_quiz (Some example_questions) ?inp (example_session 1))) = Some 3"
    and "take_quiz (Some example_questions)
           (?inp\<lparr>radio_selected := None, btn_previous := False, btn_save := False, btn_next := False,
              btn_submit := False, chk_review := False\<rparr>) ((example_session 1)\<lparr>current_question := Some 2\<rparr>) =
         take_quiz (Some example_questions) ?inp (example_session 1)"
    by simp_all
  with up example_questions_length i s show ?thesis by simp
qed

text \<open>
  C3 as stated fails when no question is fetched. A session over the three example
  questions has reached index 2; fifteen minutes after its start the query fails, so
  that the list of questions is empty and the question count is 0. The run shows the
  notice, leaves the index at 2 and scores nothing.
\<close>

theorem time_up_no_questions_counterexample:
  "renders example_questions [idle\<lparr>btn_next := True\<rparr>, idle\<lparr>btn_next := True\<rparr>] empty_session =
     example_session 2 \<and>
   time_is_up (idle\<lparr>now := 900000000\<rparr>) (example_session 2) \<and>
   fst (fetch_all_questions None) = [] \<and>
   take_quiz None (idle\<lparr>now := 900000000\<rparr>) (example_session 2) =
     (example_session 2,
      [Log Error_fetching, st_error ''Failed to retrieve questions.'',
       st_warning ''No questions available. Please contact the administrator.''], None) \<and>
   current_question (fst (take_quiz None (idle\<lparr>now := 900000000\<rparr>) (example_session 2))) = Some 2"
proof -
  have r: "renders example_questions [idle\<lparr>btn_next := True\<rparr>, idle\<lparr>btn_next := True\<rparr>] empty_session =
     example_session 2"
    by (simp add: take_quiz_def fetch_all_questions_def example_questions_def example_question_def
        idle_def empty_session_def example_session_def remaining_time_def show_question_def
        py_index_def radio_index_def navigation_def Let_def)
  have t: "take_quiz None (idle\<lparr>now := 900000000\<rparr>) (example_session 2) =
     (example_session 2,
      [Log Error_fetching, st_error ''Failed to retrieve questions.'',
       st_warning ''No questions available. Please contact the administrator.''], None)"
    by (simp add: take_quiz_no_questions fetch_all_questions_def)
  show ?thesis
    using r t example_time_up [of 2]
    by (simp add: fetch_all_questions_def example_session_def)
qed

text \<open>
  C4. Over a fixed list of \<open>N\<close> questions the index stays in \<open>[0, N]\<close>: it is there after
  every sequence of runs from the empty session, and every run keeps it there. While the
  timer has not expired, \<^verbatim>\<open>Previous\<close> at index 0 leaves the index at 0 and \<^verbatim>\<open>Next\<close> at
  index \<open>N - 1\<close> leaves it at \<open>N - 1\<close>. A run ends at index \<open>N\<close> only when the timer has
  expired or the index was \<open>N\<close> before: of the ways the claim lists, the code uses the
  forced expiry alone, since \<^verbatim>\<open>Submit\<close> scores the quiz without moving the index and
  \<^verbatim>\<open>Next\<close> stops at \<open>N - 1\<close>.
\<close>

theorem navigation_bounds:
  "index_in_bounds questions (renders questions inps empty_session) \<and>
   (index_in_bounds questions s \<longrightarrow>
      index_in_bounds questions (fst (take_quiz (Some questions) inp s))) \<and>
   (\<not> time_is_up inp s \<and> current_question s = Some 0 \<and> btn_previous inp \<and> \<not> btn_next inp \<longrightarrow>
      current_question (fst (take_quiz (Some questions) inp s)) = Some 0) \<and>
   (\<not> time_is_up inp s \<and> current_question s = Some (int (length questions) - 1) \<and> btn_next inp \<longrightarrow>
      current_question (fst (take_quiz (Some questions) inp s)) = Some (int (length questions) - 1)) \<and>
   (current_question (fst (take_quiz (Some questions) inp s)) = Some (int (length questions)) \<longrightarrow>
      (questions \<noteq> [] \<and> time_is_up inp s) \<or> current_question s = Some (int (length questions)))"
proof (intro conjI impI)
  have "index_in_bounds questions empty_session"
    by (simp add: index_in_bounds_def empty_session_def)
  then show "index_in_bounds questions (renders questions inps empty_session)"
    by (rule renders_in_bounds)
next
  assume "index_in_bounds questions s"
  then show "index_in_bounds questions (fst (take_quiz (Some questions) inp s))"
    by (rule take_quiz_in_bounds)
next
  assume "\<not> time_is_up inp s \<and> current_question s = Some 0 \<and> btn_previous inp \<and> \<not> btn_next inp"
  then show "current_question (fst (take_quiz (Some questions) inp s)) = Some 0"
    by (simp add: previous_at_first)
next
  assume "\<not> time_is_up inp s \<and> current_question s = Some (int (length questions) - 1) \<and> btn_next inp"
  then show "current_question (fst (take_quiz (Some questions) inp s)) = Some (int (length questions) - 1)"
    by (simp add: next_at_last)
next
  assume "current_question (fst (take_quiz (Some questions) inp s)) = Some (int (length questions))"
  then show "(questions \<noteq> [] \<and> time_is_up inp s) \<or> current_question s = Some (int (length questions))"
    by (rule end_only_by_timer)
qed

text \<open>
  With the three example questions: \<^verbatim>\<open>Previous\<close> at index 0 and \<^verbatim>\<open>Next\<close> at index 2
  change nothing, and the run that ends at index 3 is the one after fifteen minutes.
\<close>

theorem navigation_bounds_witness:
  "index_in_bounds example_questions (example_session 0) \<and>
   index_in_bounds example_questions
     (fst (take_quiz (Some example_questions) (idle\<lparr>btn_previous := False, btn_next := True\<rparr>)
        (example_session 0))) \<and>
   \<not> time_is_up (idle\<lparr>btn_previous := True, btn_next := False\<rparr>) (example_session 0) \<and>
   current_question
     (fst (take_quiz (Some example_questions) (idle\<lparr>btn_previous := True, btn_next := False\<rparr>)
        (example_session 0))) = Some 0 \<and>
   \<not> time_is_up (idle\<lparr>btn_previous := False, btn_next := True\<rparr>) (example_session 2) \<and>
   current_question
     (fst (take_quiz (Some example_questions) (idle\<lparr>btn_previous := False, btn_next := True\<rparr>)
        (example_session 2))) = Some 2 \<and>
   current_question
     (fst (take_quiz (Some example_questions) (idle\<lparr>now := 900000000\<rparr>) (example_session 1))) = Some 3 \<and>
   time_is_up (idle\<lparr>now := 900000000\<rparr>) (example_session 1)"
proof -
  have b: "index_in_bounds example_questions (example_session 0)"
    by (simp add: index_in_bounds_def example_session_def)
  have c: "current_question (example_session 0) = Some 0"
    "current_question (example_session 2) = Some (int (length example_questions) - 1)"
    "current_question (example_session 1) \<noteq> Some (int (length example_questions))"
    by (simp_all add: example_session_def example_questions_length)
  have w: "btn_previous (idle\<lparr>btn_previous := True, btn_next := False\<rparr>)"
    "\<not> btn_next (idle\<lparr>btn_previous := True, btn_next := False\<rparr>)"
    "btn_next (idle\<lparr>btn_previous := False, btn_next := True\<rparr>)"
    by simp_all
  have e: "current_question
     (fst (take_quiz (Some example_questions) (idle\<lparr>now := 900000000\<rparr>) (example_session 1))) = Some 3"
    by (simp add: take_quiz_time_up [OF example_questions_length(1) example_time_up]
        example_questions_length)
  from navigation_bounds [of example_questions "[]" "example_session 0"
      "idle\<lparr>btn_previous := False, btn_next := True\<rparr>"] b
  have 1: "index_in_bounds example_questions
     (fst (take_quiz (Some example_questions) (idle\<lparr>btn_previous := False, btn_next := True\<rparr>)
        (example_session 0)))"
    by simp
  from navigation_bounds [of example_questions "[]" "example_session 0"
      "idle\<lparr>btn_previous := True, btn_next := False\<rparr>"] example_not_time_up c(1) w
  have 2: "current_question
     (fst (take_quiz (Some example_questions) (idle\<lparr>btn_previous := True, btn_next := False\<rparr>)
        (example_session 0))) = Some 0"
    by simp
  from navigation_bounds [of example_questions "[]" "example_session 2"
      "idle\<lparr>btn_previous := False, btn_next := True\<rparr>"] example_not_time_up c(2) w
  have 3: "current_question
     (fst (take_quiz (Some example_questions) (idle\<lparr>btn_previous := False, btn_next := True\<rparr>)
        (example_session 2))) = Some 2"
    by (simp add: example_questions_length)
  from navigation_bounds [of example_questions "[]" "example_session 1" "idle\<lparr>now := 900000000\<rparr>"]
    e c(3)
  have 4: "time_is_up (idle\<lparr>now := 900000000\<rparr>) (example_session 1)"
    by (simp add: example_questions_length)
  from b 1 2 3 4 e example_not_time_up show ?thesis by simp
qed

section \<open>Question store: the insert\<close>


lemma add_question_cases:
  "(\<exists>q. add_question backend rows d = (True, rows @ [q], [Log (Added_question (qid q))])) \<or>
   (\<exists>e. add_question backend rows d = (False, rows, [Log (Error_adding e)]))"
  by (auto simp: add_question_def split: sum.splits)



section \<open>Intake: the form and the bulk entry\<close>

text \<open>
  C8. A submitted form with one of the six fields empty is refused with the message
  \<^verbatim>\<open>Please fill in all fields.\<close>, without a call of \<^verbatim>\<open>add_question\<close>, and the table is
  unchanged. With the six fields filled there is one call, and the page reports what it
  returned.
\<close>

theorem single_entry_validation:
  assumes "submitted f"
  shows "if form_question_text f = [] \<or> form_option_a f = [] \<or> form_option_b f = [] \<or>
            form_option_c f = [] \<or> form_option_d f = [] \<or> form_correct_option f = []
         then single_entry backend rows f = (rows, [st_error ''Please fill in all fields.'']) \<and>
              insert_attempts (snd (single_entry backend rows f)) = 0
         else insert_attempts (snd (single_entry backend rows f)) = 1 \<and>
              ((\<exists>q. add_question backend rows (form_question_data f) =
                      (True, rows @ [q], [Log (Added_question (qid q))]) \<and>
                    single_entry backend rows f =
                      (rows @ [q],
                       [Log (Added_question (qid q)), st_success ''Question added successfully!''])) \<or>
               (\<exists>e. add_question backend rows (form_question_data f) =
                      (False, rows, [Log (Error_adding e)]) \<and>
                    single_entry backend rows f =
                      (rows,
                       [Log (Error_adding e),
                        st_error ''Failed to add question. Check logs for details.''])))"
  using assms add_question_cases [of backend rows "form_question_data f"]
  by (auto simp: single_entry_def insert_attempts_def is_insert_attempt_def)

text \<open>The example form with option C empty is refused; with option C filled it is added.\<close>

theorem single_entry_validation_witness:
  "submitted (example_form []) \<and>
   single_entry example_backend [] (example_form []) = ([], [st_error ''Please fill in all fields.'']) \<and>
   insert_attempts (snd (single_entry example_backend [] (example_form []))) = 0 \<and>
   submitted (example_form ''5'') \<and>
   insert_attempts (snd (single_entry example_backend [] (example_form ''5''))) = 1 \<and>
   snd (single_entry example_backend [] (example_form ''5'')) =
     [Log (Added_question 1), st_success ''Question added successfully!'']"
proof -
  have s: "submitted (example_form [])" "submitted (example_form ''5'')"
    by (simp_all add: example_form_def)
  have e: "form_option_c (example_form []) = []"
    "\<not> (form_question_text (example_form ''5'') = [] \<or> form_option_a (example_form ''5'') = [] \<or>
        form_option_b (example_form ''5'') = [] \<or> form_option_c (example_form ''5'') = [] \<or>
        form_option_d (example_form ''5'') = [] \<or> form_correct_option (example_form ''5'') = [])"
    by (simp_all add: example_form_def)
  have a: "snd (single_entry example_backend [] (example_form ''5'')) =
     [Log (Added_question 1), st_success ''Question added successfully!'']"
    by (simp add: single_entry_def example_form_def form_question_data_def add_question_def
        add_and_commit_def example_backend_def not_null_ok_def not_null_columns_def
        correct_option_check_def column_def)
  from single_entry_validation [OF s(1), of example_backend "[]"] e(1)
  have 1: "single_entry example_backend [] (example_form []) = ([], [st_error ''Please fill in all fields.''])"
    and 2: "insert_attempts (snd (single_entry example_backend [] (example_form []))) = 0"
    by (simp_all add: insert_attempts_def is_insert_attempt_def)
  from single_entry_validation [OF s(2), of example_backend "[]"] e(2)
  have 3: "insert_attempts (snd (single_entry example_backend [] (example_form ''5''))) = 1"
    by simp
  from s 1 2 3 a show ?thesis by simp
qed



lemma validation_container:
  "is_container r \<Longrightarrow> \<exists>valid. all_fields_in fs r = Inr valid"
  by (induction fs) (auto simp: is_container_def py_in_def split: json.splits)


lemma event_kinds:
  "is_insert_attempt (Log (Added_question i))" "is_insert_attempt (Log (Error_adding e))"
  "\<not> is_insert_attempt (Log Missing_fields_log)"
  "is_added (Log (Added_question i))" "\<not> is_added (Log (Error_adding e))"
  "\<not> is_added (Log Missing_fields_log)"
  "\<not> is_skip (Log (Added_question i))" "\<not> is_skip (Log (Error_adding e))"
  "is_skip (Log Missing_fields_log)"
  by (simp_all add: is_insert_attempt_def is_added_def is_skip_def)

lemma insert_attempts_Cons:
  "insert_attempts (ev # evs) = (if is_insert_attempt ev then Suc (insert_attempts evs) else insert_attempts evs)"
  by (simp add: insert_attempts_def)

lemma ui_messages_Log: "ui_messages (Log l # evs) = ui_messages evs"
  by (simp add: ui_messages_def)

text \<open>
  The loop over records on which the validation does not raise: it runs to the end, with
  one insert attempt for each record that passes the validation and one warning for each
  that does not; the count it returns grows by one for each row added.
\<close>

lemma bulk_loop_containers:
  "list_all is_container records \<Longrightarrow>
     \<exists>rows' evs n.
       bulk_loop backend records rows c = (rows', evs, Inr n) \<and>
       insert_attempts evs =
         length (filter (\<lambda>r. all_fields_in required_fields r = Inr True) records) \<and>
       length (filter is_skip evs) =
         length (filter (\<lambda>r. all_fields_in required_fields r = Inr False) records) \<and>
       n = c + int (length (filter is_added evs)) \<and>
       length (filter is_added evs) \<le> insert_attempts evs \<and>
       length rows' = length rows + length (filter is_added evs) \<and>
       ui_messages evs = []"
proof (induction records arbitrary: rows c)
  case Nil
  then show ?case by (simp add: insert_attempts_def ui_messages_def)
next
  case (Cons r records)
  from Cons.prems have cr: "is_container r" and crs: "list_all is_container records" by simp_all
  from validation_container [OF cr, of required_fields] obtain valid
    where v: "all_fields_in required_fields r = Inr valid" by blast
  show ?case
  proof (cases valid)
    case True
    from add_question_cases [of backend rows r] show ?thesis
    proof
      assume "\<exists>q. add_question backend rows r = (True, rows @ [q], [Log (Added_question (qid q))])"
      then obtain q where a: "add_question backend rows r = (True, rows @ [q], [Log (Added_question (qid q))])"
        by blast
      from Cons.IH [OF crs, of "rows @ [q]" "c + 1"] obtain rows' evs n where
        ih: "bulk_loop backend records (rows @ [q]) (c + 1) = (rows', evs, Inr n)"
          "insert_attempts evs = length (filter (\<lambda>r. all_fields_in required_fields r = Inr True) records)"
          "length (filter is_skip evs) = length (filter (\<lambda>r. all_fields_in required_fields r = Inr False) records)"
          "n = c + 1 + int (length (filter is_added evs))"
          "length (filter is_added evs) \<le> insert_attempts evs"
          "length rows' = length (rows @ [q]) + length (filter is_added evs)"
          "ui_messages evs = []"
        by blast
      show ?thesis using v True a ih
        by (simp add: event_kinds insert_attempts_Cons ui_messages_Log)
    next
      assume "\<exists>e. add_question backend rows r = (False, rows, [Log (Error_adding e)])"
      then obtain e where a: "add_question backend rows r = (False, rows, [Log (Error_adding e)])"
        by blast
      from Cons.IH [OF crs, of rows c] obtain rows' evs n where
        ih: "bulk_loop backend records rows c = (rows', evs, Inr n)"
          "insert_attempts evs = length (filter (\<lambda>r. all_fields_in required_fields r = Inr True) records)"
          "length (filter is_skip evs) = length (filter (\<lambda>r. all_fields_in required_fields r = Inr False) records)"
          "n = c + int (length (filter is_added evs))"
          "length (filter is_added evs) \<le> insert_attempts evs"
          "length rows' = length rows + length (filter is_added evs)"
          "ui_messages evs = []"
        by blast
      show ?thesis using v True a ih
        by (simp add: event_kinds insert_attempts_Cons ui_messages_Log)
    qed
  next
    case False
    from Cons.IH [OF crs, of rows c] obtain rows' evs n where
      ih: "bulk_loop backend records rows c = (rows', evs, Inr n)"
        "insert_attempts evs = length (filter (\<lambda>r. all_fields_in required_fields r = Inr True) records)"
        "length (filter is_skip evs) = length (filter (\<lambda>r. all_fields_in required_fields r = Inr False) records)"
        "n = c + int (length (filter is_added evs))"
        "length (filter is_added evs) \<le> insert_attempts evs"
        "length rows' = length rows + length (filter is_added evs)"
        "ui_messages evs = []"
      by blast
    show ?thesis using v False ih
      by (simp add: event_kinds insert_attempts_Cons ui_messages_Log)
  qed
qed



lemma bulk_entry_list:
  "bulk_entry backend rows (Some (Text (Some (JList records)))) =
     (if records \<noteq> []
      then (case bulk_loop backend records rows 0 of
              (rows', evs, Inr success_count) \<Rightarrow>
                (rows', Log (Parsed (length records)) # evs @
                   [st_success (''Successfully added '' @ str_int success_count @ '' questions.'')])
            | (rows', evs, Inl e) \<Rightarrow>
                (rows', Log (Parsed (length records)) # evs @
                   [Log (Error_processing e), st_error ''Failed to process the uploaded file.'']))
      else (rows, [Log (Parsed 0)]))"
  by (simp add: bulk_entry_def parse_json_questions_def split: prod.splits sum.splits)



lemma ui_messages_append: "ui_messages (xs @ ys) = ui_messages xs @ ui_messages ys"
  by (simp add: ui_messages_def)

text \<open>
  C7, as the code has it. After a bulk upload of a list of at least one record, none of
  them a number, a boolean or null, the page shows one message,
  \<^verbatim>\<open>Successfully added N questions.\<close>, where \<open>N\<close> is the number of rows that the upload
  added to the table. The number of records submitted is not in it.
\<close>

theorem bulk_entry_report:
  assumes "records \<noteq> []" and "list_all is_container records"
  shows "\<exists>rows' n.
           fst (bulk_entry backend rows (Some (Text (Some (JList records))))) = rows' \<and>
           length rows' = length rows + n \<and>
           ui_messages (snd (bulk_entry backend rows (Some (Text (Some (JList records)))))) =
             [st_success (''Successfully added '' @ str_int (int n) @ '' questions.'')]"
proof -
  from bulk_loop_containers [OF assms(2), of backend rows 0] obtain rows' evs n where
    l: "bulk_loop backend records rows 0 = (rows', evs, Inr n)"
      "n = 0 + int (length (filter is_added evs))"
      "length rows' = length rows + length (filter is_added evs)"
      "ui_messages evs = []"
    by blast
  have "bulk_entry backend rows (Some (Text (Some (JList records)))) =
      (rows', Log (Parsed (length records)) # evs @
         [st_success (''Successfully added '' @ str_int (int (length (filter is_added evs))) @ '' questions.'')])"
    using assms(1) l(1,2) by (simp add: bulk_entry_list)
  then show ?thesis
    using l(3,4) by (simp add: ui_messages_Log ui_messages_append) (simp add: ui_messages_def)
qed

theorem bulk_entry_report_witness:
  "[example_record ''B'', JObj [(''question_text'', JStr ''x'')]] \<noteq> [] \<and>
   list_all is_container [example_record ''B'', JObj [(''question_text'', JStr ''x'')]] \<and>
   length (fst (bulk_entry example_backend []
     (Some (Text (Some (JList [example_record ''B'', JObj [(''question_text'', JStr ''x'')]])))))) = 1 \<and>
   ui_messages (snd (bulk_entry example_backend []
     (Some (Text (Some (JList [example_record ''B'', JObj [(''question_text'', JStr ''x'')]])))))) =
     [st_success ''Successfully added 1 questions.'']"
proof -
  let ?batch = "[example_record ''B'', JObj [(''question_text'', JStr ''x'')]]"
  have c: "list_all is_container ?batch"
    by (simp add: is_container_def example_record_def)
  have ne: "?batch \<noteq> []" by simp
  have u: "ui_messages (snd (bulk_entry example_backend [] (Some (Text (Some (JList ?batch)))))) =
     [st_success ''Successfully added 1 questions.'']"
    by code_simp
  have s: "\<And>n. str_int (int n) = ''1'' \<Longrightarrow> n = 1"
  proof -
    fix n :: nat assume a: "str_int (int n) = ''1''"
    show "n = 1"
    proof (cases "n < 10")
      case True
      then have "n \<in> {0, 1, 2, 3, 4, 5, 6, 7, 8, 9}" by auto
      with a show ?thesis
        by (auto simp: str_int_def str_nat.simps [of n] digit_char_def)
    next
      case False
      with a have "length (str_nat (n div 10) @ [digit_char (n mod 10)]) = 1"
        by (simp add: str_int_def str_nat.simps [of n])
      moreover have "str_nat (n div 10) \<noteq> []"
        by (simp add: str_nat.simps [of "n div 10"])
      ultimately show ?thesis by (cases "str_nat (n div 10)") simp_all
    qed
  qed
  from bulk_entry_report [OF ne c, of example_backend "[]"] obtain rows' n where
    w: "fst (bulk_entry example_backend [] (Some (Text (Some (JList ?batch))))) = rows'"
      "length rows' = length ([] :: question list) + n"
      "ui_messages (snd (bulk_entry example_backend [] (Some (Text (Some (JList ?batch)))))) =
         [st_success (''Successfully added '' @ str_int (int n) @ '' questions.'')]"
    by blast
  from w(3) u have "str_int (int n) = ''1''" by simp
  then have "n = 1" by (rule s)
  with w(1,2) have "length (fst (bulk_entry example_backend [] (Some (Text (Some (JList ?batch)))))) = 1"
    by simp
  with ne c u show ?thesis by blast
qed

text \<open>
  C7 as stated fails: the message has no total. A batch of two records of which one is
  added and a batch of that one record give the same message, so the page does not tell
  2 submitted from 1 submitted.
\<close>

theorem bulk_entry_report_counterexample:
  "ui_messages (snd (bulk_entry example_backend []
     (Some (Text (Some (JList [example_record ''B'', JObj [(''question_text'', JStr ''x'')]])))))) =
     [st_success ''Successfully added 1 questions.''] \<and>
   ui_messages (snd (bulk_entry example_backend []
     (Some (Text (Some (JList [example_record ''B''])))))) =
     [st_success ''Successfully added 1 questions.''] \<and>
   length [example_record ''B'', JObj [(''question_text'', JStr ''x'')]] = 2 \<and>
   length (fst (bulk_entry example_backend []
     (Some (Text (Some (JList [example_record ''B'', JObj [(''question_text'', JStr ''x'')]])))))) = 1"
  by code_simp

text \<open>
  C6 on the code. A payload whose top level is an object: \<^verbatim>\<open>parse_json_questions\<close> logs
  that the data is not a list and returns the empty list, and nothing is inserted; but
  no message is shown, and the run is, on the page, the run for the empty list. The
  branch for a payload that does not parse is the one that shows
  \<^verbatim>\<open>Invalid JSON format.\<close>
\<close>

theorem not_a_list_shows_nothing:
  "bulk_entry backend rows (Some (Text (Some (JObj kwargs)))) = (rows, [Log Not_a_list]) \<and>
   ui_messages (snd (bulk_entry backend rows (Some (Text (Some (JObj kwargs)))))) = [] \<and>
   ui_messages (snd (bulk_entry backend rows (Some (Text (Some (JObj kwargs)))))) =
     ui_messages (snd (bulk_entry backend rows (Some (Text (Some (JList [])))))) \<and>
   bulk_entry backend rows (Some (Text None)) =
     (rows, [Log JSON_decode_error, st_error ''Invalid JSON format.''])"
  by (simp add: bulk_entry_def parse_json_questions_def ui_messages_def)

text \<open>
  C10. A payload that parses to the empty list: no insert is attempted, the table is
  unchanged and nothing is shown, no count either. A payload that does not parse gets
  no \<^verbatim>\<open>Successfully added\<close> message either, only the error of the parser.
\<close>

theorem empty_list_reports_nothing:
  "bulk_entry backend rows (Some (Text (Some (JList [])))) = (rows, [Log (Parsed 0)]) \<and>
   insert_attempts (snd (bulk_entry backend rows (Some (Text (Some (JList [])))))) = 0 \<and>
   ui_messages (snd (bulk_entry backend rows (Some (Text (Some (JList [])))))) = [] \<and>
   fst (bulk_entry backend rows (Some (Text None))) = rows \<and>
   insert_attempts (snd (bulk_entry backend rows (Some (Text None)))) = 0 \<and>
   ui_messages (snd (bulk_entry backend rows (Some (Text None)))) = [st_error ''Invalid JSON format.'']"
  by (simp add: bulk_entry_def parse_json_questions_def ui_messages_def insert_attempts_def
      is_insert_attempt_def)

end
